theory Spec2Isabelle
  imports Main "HOL-Library.Sublist"
begin

section \<open>The random-user component: data model\<close>

text \<open>
  The repository is one React component, \<^verbatim>\<open>src/components/random-user.tsx\<close>.
  Its state is six \<^verbatim>\<open>useState\<close> cells; its environment is the browser's local storage,
  the clipboard, the alert box, the console and the remote service.

  A JavaScript string is a sequence of UTF-16 code units; it is modelled as the list of
  their numbers (each below \<open>2^16\<close>). \<open>js\<close> turns a literal of ASCII characters into
  the string with the same code units.
\<close>

type_synonym jsstring = "nat list"

abbreviation js :: "string \<Rightarrow> jsstring" where
  "js s \<equiv> map of_char s"

text \<open>\<^verbatim>\<open>interface User\<close> (lines 17-23). The field \<^verbatim>\<open>image\<close> is called \<open>image_url\<close>
  here, because \<open>image\<close> is the image of a set under a function in HOL.\<close>

record User =
  name :: jsstring
  email :: jsstring
  address :: jsstring
  image_url :: jsstring
  gender :: jsstring

text \<open>
  A \<^verbatim>\<open>User\<close> object of the running program has an identity: \<^verbatim>\<open>includes\<close> and \<^verbatim>\<open>!==\<close>
  compare object references, not field values. An object is modelled as its reference
  (a number, unique per allocation) together with its fields; the source never mutates a
  \<^verbatim>\<open>User\<close> after building it, so the fields can travel with the reference.
\<close>

datatype Obj = Obj (ref: nat) (content: User)

text \<open>\<^verbatim>\<open>a === b\<close> on two objects.\<close>

definition same_ref :: "Obj \<Rightarrow> Obj \<Rightarrow> bool" where
  "same_ref a b = (ref a = ref b)"

text \<open>\<^verbatim>\<open>xs.includes(x)\<close> on an array of objects.\<close>

definition includes_obj :: "Obj list \<Rightarrow> Obj \<Rightarrow> bool" where
  "includes_obj xs x = list_ex (\<lambda>y. same_ref y x) xs"

section \<open>Favorites (lines 86-92)\<close>

text \<open>
  \<^verbatim>\<open>
  const toggleFavorite = useCallback((userToFavorite: User) => {
    if (favorites.includes(userToFavorite)) {
      setFavorites(favorites.filter((fav) => fav !== userToFavorite));
    } else {
      setFavorites([...favorites, userToFavorite]);
    }
  }, [favorites]);
  \<close>
  \<open>toggle\<close> is the new value handed to \<^verbatim>\<open>setFavorites\<close>, as a function of the value of
  \<^verbatim>\<open>favorites\<close> the callback closes over.
\<close>

definition toggle :: "Obj list \<Rightarrow> Obj \<Rightarrow> Obj list" where
  "toggle favs userToFavorite =
     (if includes_obj favs userToFavorite
      then filter (\<lambda>fav. \<not> same_ref fav userToFavorite) favs
      else favs @ [userToFavorite])"

section \<open>The component's state and environment\<close>

text \<open>
  The first six fields are the \<^verbatim>\<open>useState\<close> cells of lines 26-31. The others are the
  environment the component writes to: \<open>localStorage\<close> (a map from keys to strings),
  the texts handed to \<^verbatim>\<open>navigator.clipboard.writeText\<close>, the messages shown by \<^verbatim>\<open>alert\<close>,
  the values given to \<^verbatim>\<open>console.error\<close> (each list oldest first), and the next unused
  object reference.
\<close>

datatype thrown = FetchRejected | JsonRejected | TypeError | SyntaxError

record component =
  user :: "Obj option"
  loading :: bool
  error :: "jsstring option"
  userHistory :: "Obj list"
  favorites :: "Obj list"
  searchTerm :: jsstring
  localStorage :: "jsstring \<rightharpoonup> jsstring"
  clipboard :: "jsstring list"
  alerts :: "jsstring list"
  console :: "thrown list"
  next_ref :: nat

text \<open>The state of the first render: the initial values of lines 26-31.\<close>

definition initial :: "(jsstring \<rightharpoonup> jsstring) \<Rightarrow> component" where
  "initial storage =
     \<lparr>user = None, loading = False, error = None, userHistory = [], favorites = [],
      searchTerm = [], localStorage = storage, clipboard = [], alerts = [], console = [],
      next_ref = 0\<rparr>"

definition toggleFavorite :: "Obj \<Rightarrow> component \<Rightarrow> component" where
  "toggleFavorite userToFavorite s = s\<lparr>favorites := toggle (favorites s) userToFavorite\<rparr>"

section \<open>Persistence (lines 34-44)\<close>

text \<open>
  \<^verbatim>\<open>JSON.stringify\<close> on an array of \<^verbatim>\<open>User\<close>: the members in the order the object literal
  of lines 54-60 creates them, strings quoted as ECMAScript's QuoteJSONString does. It
  writes a backslash escape for the quotation mark, the backslash and the code units below
  U+0020, and \<^verbatim>\<open>uXXXX\<close> after a backslash for a surrogate that is not part of a pair; a
  leading surrogate followed by a trailing one, and every other code unit, is copied.
  In the numbers below, 34 is the quotation mark, 92 the backslash, 8, 12, 10, 13 and 9 are
  backspace, form feed, line feed, carriage return and tab, 98, 102, 110, 114, 116 and 117
  the letters b, f, n, r, t and u, 48 the digit 0 and 97 the letter a.
\<close>

definition hex_digit :: "nat \<Rightarrow> nat" where
  "hex_digit n = (if n < 10 then 48 + n else 87 + n)"

definition unicode_escape :: "nat \<Rightarrow> jsstring" where
  "unicode_escape n =
     [92, 117, hex_digit (n div 4096), hex_digit (n div 256 mod 16),
      hex_digit (n div 16 mod 16), hex_digit (n mod 16)]"

definition escape :: "nat \<Rightarrow> jsstring" where
  "escape n =
     (if n = 34 then [92, 34]
      else if n = 92 then [92, 92]
      else if n = 8 then [92, 98]
      else if n = 12 then [92, 102]
      else if n = 10 then [92, 110]
      else if n = 13 then [92, 114]
      else if n = 9 then [92, 116]
      else if n < 32 then unicode_escape n
      else [n])"

definition leading_surrogate :: "nat \<Rightarrow> bool" where
  "leading_surrogate n = (55296 \<le> n \<and> n \<le> 56319)"

definition trailing_surrogate :: "nat \<Rightarrow> bool" where
  "trailing_surrogate n = (56320 \<le> n \<and> n \<le> 57343)"

fun quote_units :: "jsstring \<Rightarrow> jsstring" where
  "quote_units [] = []"
| "quote_units [c] =
     (if leading_surrogate c \<or> trailing_surrogate c then unicode_escape c else escape c)"
| "quote_units (c # d # ds) =
     (if leading_surrogate c \<and> trailing_surrogate d then c # d # quote_units ds
      else if leading_surrogate c \<or> trailing_surrogate c
      then unicode_escape c @ quote_units (d # ds)
      else escape c @ quote_units (d # ds))"

definition quote :: "jsstring \<Rightarrow> jsstring" where
  "quote s = [34] @ quote_units s @ [34]"

definition json_member :: "jsstring \<Rightarrow> jsstring \<Rightarrow> jsstring" where
  "json_member k v = quote k @ js '':'' @ quote v"

fun join :: "jsstring \<Rightarrow> jsstring list \<Rightarrow> jsstring" where
  "join sep [] = []"
| "join sep [x] = x"
| "join sep (x # y # ys) = x @ sep @ join sep (y # ys)"

definition stringify_User :: "User \<Rightarrow> jsstring" where
  "stringify_User u =
     js ''{'' @
     join (js '','')
       [json_member (js ''name'') (name u), json_member (js ''email'') (email u),
        json_member (js ''address'') (address u), json_member (js ''image'') (image_url u),
        json_member (js ''gender'') (gender u)] @
     js ''}''"

definition JSON_stringify :: "User list \<Rightarrow> jsstring" where
  "JSON_stringify us = js ''['' @ join (js '','') (map stringify_User us) @ js '']''"

text \<open>
  \<^verbatim>\<open>
  useEffect(() => {
    localStorage.setItem("userHistory", JSON.stringify(userHistory));
  }, [userHistory]);
  \<close>
  \<open>persist_of h\<close> is the effect run in a render whose \<^verbatim>\<open>userHistory\<close> is \<open>h\<close>.
\<close>

definition persist_of :: "Obj list \<Rightarrow> component \<Rightarrow> component" where
  "persist_of h s =
     s\<lparr>localStorage :=
         (localStorage s)(js ''userHistory'' \<mapsto> JSON_stringify (map content h))\<rparr>"

text \<open>
  \<^verbatim>\<open>setUserHistory(h)\<close> together with what it triggers. Every call in the source passes an
  array built at the call (\<^verbatim>\<open>[]\<close>, a spread, the result of \<^verbatim>\<open>JSON.parse\<close>), so the
  dependency \<^verbatim>\<open>[userHistory]\<close> changes, the component renders again and the effect of lines
  42-44 runs with the new value.
\<close>

definition setUserHistory :: "Obj list \<Rightarrow> component \<Rightarrow> component" where
  "setUserHistory h s = persist_of h (s\<lparr>userHistory := h\<rparr>)"

text \<open>
  \<^verbatim>\<open>
  useEffect(() => {
    const savedHistory = localStorage.getItem("userHistory");
    if (savedHistory) {
      setUserHistory(JSON.parse(savedHistory));
    }
  }, []);
  \<close>
  \<^verbatim>\<open>JSON.parse\<close> belongs to the runtime, not to the repository: it is the parameter
  \<open>JSON_parse\<close>, taken at the type the source uses its result at (\<^verbatim>\<open>User[]\<close>), with
  \<open>Inl SyntaxError\<close> for the exception it throws on text that is not JSON.
  \<^verbatim>\<open>getItem\<close> returns \<^verbatim>\<open>null\<close> for a missing key; \<^verbatim>\<open>if (savedHistory)\<close> is false for
  \<^verbatim>\<open>null\<close> and for the empty string.
  The result is the update the effect asks for, if any, or the exception it throws.
\<close>

definition load_history ::
  "(jsstring \<Rightarrow> thrown + User list) \<Rightarrow> component \<Rightarrow> thrown + User list option" where
  "load_history JSON_parse s =
     (case localStorage s (js ''userHistory'') of
        None \<Rightarrow> Inr None
      | Some savedHistory \<Rightarrow>
          if savedHistory = [] then Inr None
          else (case JSON_parse savedHistory of
                  Inl e \<Rightarrow> Inl e
                | Inr parsed \<Rightarrow> Inr (Some parsed)))"

text \<open>Fresh objects for parsed or fetched records: one new reference each.\<close>

definition allocate :: "User list \<Rightarrow> component \<Rightarrow> Obj list" where
  "allocate us s = map (\<lambda>(i, u). Obj (next_ref s + i) u) (enumerate 0 us)"

section \<open>Fetching (lines 47-69)\<close>

text \<open>
  \<^verbatim>\<open>
  const fetchRandomUser = async () => {
    setLoading(true);
    setError(null);
    try {
      const response = await fetch("https://randomuser.me/api/");
      const data = await response.json();
      const fetchedUser = data.results[0];
      const newUser: User = { ... };
      setUser(newUser);
      setUserHistory((prev) => [...prev, newUser]);
    } catch (err) {
      console.error(err);
      setError("Failed to fetch user. Please try again.");
    } finally {
      setLoading(false);
    }
  };
  \<close>
  The function runs in two parts: lines 48-49 when it is called, and the rest when the
  awaited request has settled. What the request settles with comes from outside and is a
  parameter of the second part.
\<close>

text \<open>
  The body the service answers with, at the shape lines 53-59 read it:
  \<^verbatim>\<open>{results: [{name: {first, last}, email, location: {street: {number, name}, city,
  country}, picture: {large}, gender}]}\<close>. The member \<^verbatim>\<open>results\<close> may be missing (the
  service answers \<^verbatim>\<open>{error: ...}\<close> when it refuses a request) and the array may be empty.
  The street number is a natural number below \<open>2^53\<close> (which a JavaScript number holds
  exactly and prints in plain decimal).
\<close>

record api_name =
  name_first :: jsstring
  name_last :: jsstring

record api_street =
  street_number :: nat
  street_name :: jsstring

record api_location =
  location_street :: api_street
  location_city :: jsstring
  location_country :: jsstring

record api_picture =
  picture_large :: jsstring

record api_user =
  result_name :: api_name
  result_email :: jsstring
  result_location :: api_location
  result_picture :: api_picture
  result_gender :: jsstring

record api_response =
  results :: "api_user list option"

text \<open>What the two awaited calls of lines 51-52 give: \<^verbatim>\<open>fetch\<close> rejects, or
  \<^verbatim>\<open>response.json()\<close> rejects, or the parsed body.\<close>

datatype reply = NoResponse | BadBody | Data api_response

text \<open>A number inside a template literal: its decimal digits.\<close>

function show_nat :: "nat \<Rightarrow> jsstring" where
  "show_nat n = (if n < 10 then [48 + n] else show_nat (n div 10) @ [48 + n mod 10])"
  by pat_completeness auto
termination
  by (relation "measure id") auto

declare show_nat.simps [simp del]

text \<open>Lines 53-60. Without \<^verbatim>\<open>results\<close>, \<^verbatim>\<open>data.results\<close> is \<^verbatim>\<open>undefined\<close> and reading
  \<^verbatim>\<open>[0]\<close> of it throws a TypeError; for an empty array \<^verbatim>\<open>data.results[0]\<close> is
  \<^verbatim>\<open>undefined\<close> and reading \<^verbatim>\<open>.name\<close> of it throws a TypeError.\<close>

definition build_user :: "api_response \<Rightarrow> thrown + User" where
  "build_user data =
     (case results data of
        None \<Rightarrow> Inl TypeError
      | Some [] \<Rightarrow> Inl TypeError
      | Some (fetchedUser # _) \<Rightarrow>
          Inr \<lparr>name = name_first (result_name fetchedUser) @ js '' '' @
                       name_last (result_name fetchedUser),
               email = result_email fetchedUser,
               address =
                 show_nat (street_number (location_street (result_location fetchedUser))) @
                 js '' '' @ street_name (location_street (result_location fetchedUser)) @
                 js '', '' @ location_city (result_location fetchedUser) @
                 js '', '' @ location_country (result_location fetchedUser),
               image_url = picture_large (result_picture fetchedUser),
               gender = result_gender fetchedUser\<rparr>)"

text \<open>Lines 51-60, the part of the \<^verbatim>\<open>try\<close> block before the first setter.\<close>

definition attempt :: "reply \<Rightarrow> thrown + User" where
  "attempt r =
     (case r of
        NoResponse \<Rightarrow> Inl FetchRejected
      | BadBody \<Rightarrow> Inl JsonRejected
      | Data data \<Rightarrow> build_user data)"

text \<open>Lines 48-49, run when \<^verbatim>\<open>fetchRandomUser\<close> is called.\<close>

definition fetch_begin :: "component \<Rightarrow> component" where
  "fetch_begin s = s\<lparr>loading := True, error := None\<rparr>"

text \<open>Lines 61-68, run when the awaited calls have settled: the setters of the
  \<^verbatim>\<open>try\<close> block or the \<^verbatim>\<open>catch\<close> block, then \<^verbatim>\<open>finally\<close>.\<close>

definition fetch_end :: "reply \<Rightarrow> component \<Rightarrow> component" where
  "fetch_end r s =
     (case attempt r of
        Inr u \<Rightarrow>
          (let newUser = Obj (next_ref s) u;
               s1 = s\<lparr>next_ref := Suc (next_ref s)\<rparr>;
               s2 = s1\<lparr>user := Some newUser\<rparr>;
               s3 = setUserHistory (userHistory s2 @ [newUser]) s2
           in s3\<lparr>loading := False\<rparr>)
      | Inl err \<Rightarrow>
          (let s1 = s\<lparr>console := console s @ [err]\<rparr>;
               s2 = s1\<lparr>error := Some (js ''Failed to fetch user. Please try again.'')\<rparr>
           in s2\<lparr>loading := False\<rparr>))"

text \<open>One call of \<^verbatim>\<open>fetchRandomUser\<close> from start to completion, with nothing else
  happening while the request is in flight.\<close>

definition fetchRandomUser :: "reply \<Rightarrow> component \<Rightarrow> component" where
  "fetchRandomUser r s = fetch_end r (fetch_begin s)"

section \<open>Mounting (lines 34-44 and 72-74)\<close>

text \<open>
  The three effects of the first render run in the order they are declared: the load (which
  reads the storage and may ask for an update of \<^verbatim>\<open>userHistory\<close>, or throw), the save of the
  first render's empty \<^verbatim>\<open>userHistory\<close>, and the start of the first fetch. The update the
  load asked for is applied after them. An exception thrown by the load is caught nowhere.
\<close>

definition mount ::
  "(jsstring \<Rightarrow> thrown + User list) \<Rightarrow> (jsstring \<rightharpoonup> jsstring) \<Rightarrow>
     thrown + component" where
  "mount JSON_parse storage =
     (case load_history JSON_parse (initial storage) of
        Inl e \<Rightarrow> Inl e
      | Inr update \<Rightarrow>
          (let s1 = persist_of [] (initial storage);
               s2 = fetch_begin s1
           in Inr (case update of
                     None \<Rightarrow> s2
                   | Some parsed \<Rightarrow>
                       setUserHistory (allocate parsed s2)
                         (s2\<lparr>next_ref := next_ref s2 + length parsed\<rparr>))))"

section \<open>Clipboard, clearing, searching (lines 77-83 and 95-108)\<close>

text \<open>
  \<^verbatim>\<open>
  const copyUserInfo = () => {
    if (user) {
      const userInfo = ...;
      navigator.clipboard.writeText(userInfo);
      alert("User information copied to clipboard!");
    }
  };
  \<close>
  where \<^verbatim>\<open>userInfo\<close> is the template of line 79: \<^verbatim>\<open>Name: \<close>, the name, a line feed,
  \<^verbatim>\<open>Email: \<close>, the email, a line feed, \<^verbatim>\<open>Address: \<close>, the address.
\<close>

definition userInfo :: "User \<Rightarrow> jsstring" where
  "userInfo u =
     js ''Name: '' @ name u @ [10] @ js ''Email: '' @ email u @ [10] @
     js ''Address: '' @ address u"

definition copyUserInfo :: "component \<Rightarrow> component" where
  "copyUserInfo s =
     (case user s of
        None \<Rightarrow> s
      | Some u \<Rightarrow>
          s\<lparr>clipboard := clipboard s @ [userInfo (content u)],
            alerts := alerts s @ [(js ''User information copied to clipboard!'')]\<rparr>)"

text \<open>\<^verbatim>\<open>const clearHistory = () => { setUserHistory([]); };\<close>\<close>

definition clearHistory :: "component \<Rightarrow> component" where
  "clearHistory s = setUserHistory [] s"

text \<open>\<^verbatim>\<open>handleSearch\<close> with the text of the input field, \<^verbatim>\<open>event.target.value\<close>.\<close>

definition handleSearch :: "jsstring \<Rightarrow> component \<Rightarrow> component" where
  "handleSearch v s = s\<lparr>searchTerm := v\<rparr>"




section \<open>Events\<close>

text \<open>
  Everything that changes the component after it is mounted: a click on the fetch button
  (\<open>FetchBegin\<close>), the settling of a request (\<open>FetchEnd\<close>), and the other handlers.
  Requests may overlap, and other events may fall between the start and the end of one.
\<close>

datatype event =
    FetchBegin
  | FetchEnd reply
  | ToggleFavorite Obj
  | ClearHistory
  | Search jsstring
  | CopyUserInfo

fun step :: "component \<Rightarrow> event \<Rightarrow> component" where
  "step s FetchBegin = fetch_begin s"
| "step s (FetchEnd r) = fetch_end r s"
| "step s (ToggleFavorite u) = toggleFavorite u s"
| "step s ClearHistory = clearHistory s"
| "step s (Search v) = handleSearch v s"
| "step s CopyUserInfo = copyUserInfo s"

definition run :: "component \<Rightarrow> event list \<Rightarrow> component" where
  "run s es = foldl step s es"

section \<open>Notions the properties are stated with\<close>

text \<open>The people a sequence of events fetches: one for each request that settles with
  a body lines 53-60 can build a \<^verbatim>\<open>User\<close> from, in the order the requests settle.\<close>

definition fetched_by :: "event \<Rightarrow> User list" where
  "fetched_by e =
     (case e of
        FetchEnd r \<Rightarrow> (case attempt r of Inr u \<Rightarrow> [u] | Inl _ \<Rightarrow> [])
      | _ \<Rightarrow> [])"

definition fetched :: "event list \<Rightarrow> User list" where
  "fetched es = concat (map fetched_by es)"








section \<open>Sample data\<close>

text \<open>Two people, the body of a reply that yields the first of them, and a stand-in for
  \<^verbatim>\<open>JSON.parse\<close> that agrees with it on the texts the examples store: the empty string and
  \<^verbatim>\<open>not json\<close> are no JSON text, \<^verbatim>\<open>[]\<close> is the empty array, and the text
  \<^verbatim>\<open>JSON.stringify\<close> writes for the first person alone is read back as that person.\<close>

definition jane :: User where
  "jane = \<lparr>name = js ''Jane Doe'', email = js ''jane@x.com'',
            address = js ''12 Main St, Leeds, UK'', image_url = js ''https://x.com/jane.jpg'',
            gender = js ''female''\<rparr>"

definition john :: User where
  "john = \<lparr>name = js ''John Smith'', email = js ''john@y.org'',
            address = js ''7 High St, York, UK'', image_url = js ''https://y.org/john.jpg'',
            gender = js ''male''\<rparr>"

definition jane_body :: api_response where
  "jane_body =
     \<lparr>results = Some
        [\<lparr>result_name = \<lparr>name_first = js ''Jane'', name_last = js ''Doe''\<rparr>,
          result_email = js ''jane@x.com'',
          result_location =
            \<lparr>location_street = \<lparr>street_number = 12, street_name = js ''Main St''\<rparr>,
             location_city = js ''Leeds'', location_country = js ''UK''\<rparr>,
          result_picture = \<lparr>picture_large = js ''https://x.com/jane.jpg''\<rparr>,
          result_gender = js ''female''\<rparr>]\<rparr>"

definition sample_parse :: "jsstring \<Rightarrow> thrown + User list" where
  "sample_parse text =
     (if text = js ''[]'' then Inr []
      else if text = JSON_stringify [jane] then Inr [jane]
      else Inl SyntaxError)"



section \<open>Facts about the operations\<close>

lemma show_nat_12: "show_nat 12 = js ''12''"
  by code_simp

lemma attempt_jane_body: "attempt (Data jane_body) = Inr jane"
  by (simp add: attempt_def build_user_def jane_body_def jane_def show_nat_12)

lemma attempt_failures:
  "attempt NoResponse = Inl FetchRejected"
  "attempt BadBody = Inl JsonRejected"
  "attempt (Data \<lparr>results = None\<rparr>) = Inl TypeError"
  "attempt (Data \<lparr>results = Some []\<rparr>) = Inl TypeError"
  by (simp_all add: attempt_def build_user_def)

lemma fetch_end_success:
  assumes "attempt r = Inr u"
  shows "fetch_end r s =
           s\<lparr>next_ref := Suc (next_ref s),
             user := Some (Obj (next_ref s) u),
             userHistory := userHistory s @ [Obj (next_ref s) u],
             localStorage := (localStorage s)((js ''userHistory'') \<mapsto>
                JSON_stringify (map content (userHistory s @ [Obj (next_ref s) u]))),
             loading := False\<rparr>"
  using assms by (simp add: fetch_end_def Let_def setUserHistory_def persist_of_def)

lemma fetch_end_failure:
  assumes "attempt r = Inl e"
  shows "fetch_end r s =
           s\<lparr>console := console s @ [e],
             error := Some (js ''Failed to fetch user. Please try again.''),
             loading := False\<rparr>"
  using assms by (simp add: fetch_end_def Let_def)

lemma favorites_fetch_end [simp]: "favorites (fetch_end r s) = favorites s"
  by (cases "attempt r") (simp_all add: fetch_end_failure fetch_end_success)

lemma favorites_step:
  "favorites (step s e) =
     (case e of ToggleFavorite p \<Rightarrow> toggle (favorites s) p | _ \<Rightarrow> favorites s)"
  by (cases e)
    (simp_all add: fetch_begin_def toggleFavorite_def clearHistory_def setUserHistory_def
      persist_of_def handleSearch_def copyUserInfo_def split: option.splits)

lemma run_Nil [simp]: "run s [] = s"
  by (simp add: run_def)

lemma run_Cons [simp]: "run s (e # es) = run (step s e) es"
  by (simp add: run_def)

lemma run_append: "run s (es @ fs) = run (run s es) fs"
  by (simp add: run_def)

subsection \<open>Membership by reference\<close>

lemma includes_obj_iff: "includes_obj xs x = (ref x \<in> ref ` set xs)"
  by (induction xs) (auto simp: includes_obj_def same_ref_def)

lemma same_ref_refl [simp]: "same_ref p p"
  by (simp add: same_ref_def)

lemma filter_absent: "\<not> includes_obj favs p \<Longrightarrow> filter (\<lambda>fav. \<not> same_ref fav p) favs = favs"
  by (induction favs) (auto simp: includes_obj_def)

lemma filter_removes: "\<not> includes_obj (filter (\<lambda>fav. \<not> same_ref fav p) favs) p"
  by (induction favs) (auto simp: includes_obj_def)

lemma includes_obj_snoc: "includes_obj (favs @ [p]) p"
  by (simp add: includes_obj_def same_ref_def)

lemma toggle_twice_absent:
  assumes "\<not> includes_obj favs p"
  shows "toggle (toggle favs p) p = favs"
proof -
  have "toggle favs p = favs @ [p]"
    using assms by (simp add: toggle_def)
  moreover have "toggle (favs @ [p]) p = filter (\<lambda>fav. \<not> same_ref fav p) (favs @ [p])"
    by (simp add: toggle_def includes_obj_snoc)
  moreover have "filter (\<lambda>fav. \<not> same_ref fav p) (favs @ [p]) = favs"
    using assms by (simp add: filter_absent)
  ultimately show ?thesis by simp
qed

lemma toggle_twice_present:
  assumes "includes_obj favs p"
  shows "toggle (toggle favs p) p = filter (\<lambda>fav. \<not> same_ref fav p) favs @ [p]"
  using assms by (simp add: toggle_def filter_removes)

lemma toggle_twice_restores_iff:
  "(toggle (toggle favs p) p = favs) =
     (\<not> includes_obj favs p \<or> (\<exists>ys. favs = ys @ [p] \<and> \<not> includes_obj ys p))"
proof (cases "includes_obj favs p")
  case False
  then show ?thesis by (simp add: toggle_twice_absent)
next
  case True
  let ?rest = "filter (\<lambda>fav. \<not> same_ref fav p) favs"
  have twice: "toggle (toggle favs p) p = ?rest @ [p]"
    using True by (rule toggle_twice_present)
  show ?thesis
  proof
    assume "toggle (toggle favs p) p = favs"
    with twice have "favs = ?rest @ [p]" by simp
    moreover have "\<not> includes_obj ?rest p" by (rule filter_removes)
    ultimately show "\<not> includes_obj favs p \<or> (\<exists>ys. favs = ys @ [p] \<and> \<not> includes_obj ys p)"
      by blast
  next
    assume "\<not> includes_obj favs p \<or> (\<exists>ys. favs = ys @ [p] \<and> \<not> includes_obj ys p)"
    with True obtain ys where ys: "favs = ys @ [p]" "\<not> includes_obj ys p" by blast
    then have "?rest = ys" by (simp add: filter_absent)
    with twice ys show "toggle (toggle favs p) p = favs" by simp
  qed
qed

lemma distinct_toggle:
  assumes "distinct (map ref favs)"
  shows "distinct (map ref (toggle favs p))"
proof (cases "includes_obj favs p")
  case True
  then show ?thesis using assms by (simp add: toggle_def distinct_map_filter)
next
  case False
  then show ?thesis using assms by (simp add: toggle_def includes_obj_iff)
qed

lemma distinct_step:
  "distinct (map ref (favorites s)) \<Longrightarrow> distinct (map ref (favorites (step s e)))"
  unfolding favorites_step by (cases e) (simp_all add: distinct_toggle)

lemma distinct_run:
  "distinct (map ref (favorites s)) \<Longrightarrow> distinct (map ref (favorites (run s es)))"
proof (induction es arbitrary: s)
  case Nil
  then show ?case by simp
next
  case (Cons e es)
  from Cons.prems have "distinct (map ref (favorites (step s e)))" by (rule distinct_step)
  then show ?case by (simp add: Cons.IH)
qed

lemma favorites_mount:
  assumes "mount P storage = Inr s"
  shows "favorites s = []"
  using assms
  by (auto simp: mount_def Let_def initial_def fetch_begin_def persist_of_def setUserHistory_def
      split: sum.splits option.splits)

section \<open>Favorites\<close>

text \<open>
  Claim C3, as stated: for every favorites list and every reference \<open>p\<close>, two calls of
  \<^verbatim>\<open>toggleFavorite(p)\<close> in a row give back the favorites as they were, order included,
  whether \<open>p\<close> was absent or present. It fails when \<open>p\<close> is present and not last: with
  Jane and then John marked, toggling Jane twice leaves John first and Jane second.
\<close>

theorem toggleFavorite_twice_counterexample:
  "favorites (run (initial Map.empty)
       [ToggleFavorite (Obj 0 jane), ToggleFavorite (Obj 1 john)]) = [Obj 0 jane, Obj 1 john] \<and>
   favorites (run (initial Map.empty)
       [ToggleFavorite (Obj 0 jane), ToggleFavorite (Obj 1 john),
        ToggleFavorite (Obj 0 jane), ToggleFavorite (Obj 0 jane)]) = [Obj 1 john, Obj 0 jane] \<and>
   [Obj 1 john, Obj 0 jane] \<noteq> [Obj 0 jane, Obj 1 john]"
  by (simp add: initial_def toggleFavorite_def toggle_def includes_obj_def same_ref_def)

text \<open>
  Claim C3, amended: two calls of \<^verbatim>\<open>toggleFavorite(p)\<close> in a row (with a render between
  them) give back the favorites as they were when \<open>p\<close> was absent. When \<open>p\<close> was present,
  the result is the list without \<open>p\<close>, in its order, followed by \<open>p\<close>. So the favorites
  are as before exactly when \<open>p\<close> was absent, or was the last entry and nowhere else.
\<close>

theorem toggleFavorite_twice:
  "(\<not> includes_obj (favorites s) p \<longrightarrow>
      favorites (toggleFavorite p (toggleFavorite p s)) = favorites s) \<and>
   (includes_obj (favorites s) p \<longrightarrow>
      favorites (toggleFavorite p (toggleFavorite p s)) =
        filter (\<lambda>fav. \<not> same_ref fav p) (favorites s) @ [p]) \<and>
   ((favorites (toggleFavorite p (toggleFavorite p s)) = favorites s) =
      (\<not> includes_obj (favorites s) p \<or>
       (\<exists>ys. favorites s = ys @ [p] \<and> \<not> includes_obj ys p)))"
proof -
  have "favorites (toggleFavorite p (toggleFavorite p s)) = toggle (toggle (favorites s) p) p"
    by (simp add: toggleFavorite_def)
  then show ?thesis
    by (simp add: toggle_twice_absent toggle_twice_present toggle_twice_restores_iff)
qed

theorem toggleFavorite_twice_witness:
  "\<not> includes_obj (favorites (initial Map.empty)) (Obj 0 jane) \<and>
   favorites (toggleFavorite (Obj 0 jane) (toggleFavorite (Obj 0 jane) (initial Map.empty))) = [] \<and>
   includes_obj (favorites (initial Map.empty\<lparr>favorites := [Obj 0 jane, Obj 1 john]\<rparr>)) (Obj 0 jane) \<and>
   favorites (toggleFavorite (Obj 0 jane) (toggleFavorite (Obj 0 jane)
       (initial Map.empty\<lparr>favorites := [Obj 0 jane, Obj 1 john]\<rparr>))) = [Obj 1 john, Obj 0 jane]"
  using toggleFavorite_twice [of "initial Map.empty" "Obj 0 jane"]
    toggleFavorite_twice [of "initial Map.empty\<lparr>favorites := [Obj 0 jane, Obj 1 john]\<rparr>" "Obj 0 jane"]
  by (simp add: initial_def includes_obj_def same_ref_def)

text \<open>
  Claim C9: the favorites never hold the same reference twice. \<^verbatim>\<open>toggleFavorite\<close> keeps
  the references of the favorites pairwise different, and so does every other event; the
  favorites are empty in the first render and after mounting, so they are pairwise different
  after every sequence of events.
\<close>

theorem favorites_never_twice:
  "(distinct (map ref (favorites s)) \<longrightarrow>
      distinct (map ref (favorites (toggleFavorite p s)))) \<and>
   distinct (map ref (favorites (run (initial storage) es))) \<and>
   (mount P storage = Inr s0 \<longrightarrow> distinct (map ref (favorites (run s0 es))))"
proof -
  have "distinct (map ref (favorites s)) \<longrightarrow> distinct (map ref (favorites (toggleFavorite p s)))"
    by (simp add: toggleFavorite_def distinct_toggle)
  moreover have "distinct (map ref (favorites (run (initial storage) es)))"
    by (rule distinct_run) (simp add: initial_def)
  moreover have "mount P storage = Inr s0 \<longrightarrow> distinct (map ref (favorites (run s0 es)))"
    by (auto intro!: distinct_run dest: favorites_mount)
  ultimately show ?thesis by blast
qed

theorem favorites_never_twice_witness:
  "distinct (map ref (favorites (initial Map.empty\<lparr>favorites := [Obj 0 jane]\<rparr>))) \<and>
   distinct (map ref (favorites
      (toggleFavorite (Obj 1 john) (initial Map.empty\<lparr>favorites := [Obj 0 jane]\<rparr>)))) \<and>
   mount sample_parse Map.empty = Inr (fetch_begin (persist_of [] (initial Map.empty))) \<and>
   distinct (map ref (favorites
      (run (fetch_begin (persist_of [] (initial Map.empty)))
         [ToggleFavorite (Obj 0 jane), ToggleFavorite (Obj 1 john), ToggleFavorite (Obj 0 jane)])))"
  using favorites_never_twice [of "initial Map.empty\<lparr>favorites := [Obj 0 jane]\<rparr>" "Obj 1 john"
      Map.empty "[]" sample_parse "fetch_begin (persist_of [] (initial Map.empty))"]
    favorites_never_twice [of "initial Map.empty" "Obj 1 john" Map.empty
      "[ToggleFavorite (Obj 0 jane), ToggleFavorite (Obj 1 john), ToggleFavorite (Obj 0 jane)]"
      sample_parse "fetch_begin (persist_of [] (initial Map.empty))"]
  by (simp add: initial_def mount_def load_history_def)

section \<open>Fetching\<close>

lemma fetchRandomUser_success:
  assumes "attempt r = Inr u"
  shows "fetchRandomUser r s =
           s\<lparr>error := None,
             next_ref := Suc (next_ref s),
             user := Some (Obj (next_ref s) u),
             userHistory := userHistory s @ [Obj (next_ref s) u],
             localStorage := (localStorage s)((js ''userHistory'') \<mapsto>
                JSON_stringify (map content (userHistory s @ [Obj (next_ref s) u]))),
             loading := False\<rparr>"
  using assms by (simp add: fetchRandomUser_def fetch_end_success fetch_begin_def)

lemma fetchRandomUser_failed:
  assumes "attempt r = Inl e"
  shows "fetchRandomUser r s =
           s\<lparr>console := console s @ [e],
             error := Some (js ''Failed to fetch user. Please try again.''),
             loading := False\<rparr>"
  using assms by (simp add: fetchRandomUser_def fetch_end_failure fetch_begin_def)

text \<open>
  Claim C1, as stated: after any call of \<^verbatim>\<open>fetchRandomUser\<close> has completed, exactly one
  of \<^verbatim>\<open>user\<close> and \<^verbatim>\<open>error\<close> is non-null, never both, also when a failed fetch follows a
  successful one. It fails there: the \<^verbatim>\<open>catch\<close> block sets \<^verbatim>\<open>error\<close> and nothing resets
  \<^verbatim>\<open>user\<close>, so after a successful and then a rejected fetch both are set.
\<close>

theorem fetch_exactly_one_counterexample:
  "user (fetchRandomUser NoResponse (fetchRandomUser (Data jane_body) (initial Map.empty))) =
     Some (Obj 0 jane) \<and>
   error (fetchRandomUser NoResponse (fetchRandomUser (Data jane_body) (initial Map.empty))) =
     Some (js ''Failed to fetch user. Please try again.'')"
  by (simp add: fetchRandomUser_success [OF attempt_jane_body]
      fetchRandomUser_failed [OF attempt_failures(1)] initial_def)

text \<open>
  Claim C1, amended: after a call of \<^verbatim>\<open>fetchRandomUser\<close> has completed (no other request
  overlapping it), at least one of \<^verbatim>\<open>user\<close> and \<^verbatim>\<open>error\<close> is non-null. A successful fetch
  leaves \<^verbatim>\<open>user\<close> set to the new person and \<^verbatim>\<open>error\<close> null; a failed fetch leaves \<^verbatim>\<open>error\<close>
  set and \<^verbatim>\<open>user\<close> as it was. Both are non-null exactly when the fetch failed and \<^verbatim>\<open>user\<close>
  was non-null before it.
\<close>

theorem fetch_user_or_error:
  "(attempt r = Inr u \<longrightarrow>
      user (fetchRandomUser r s) = Some (Obj (next_ref s) u) \<and>
      error (fetchRandomUser r s) = None) \<and>
   (attempt r = Inl e \<longrightarrow>
      user (fetchRandomUser r s) = user s \<and>
      error (fetchRandomUser r s) = Some (js ''Failed to fetch user. Please try again.'')) \<and>
   (user (fetchRandomUser r s) \<noteq> None \<or> error (fetchRandomUser r s) \<noteq> None) \<and>
   ((user (fetchRandomUser r s) \<noteq> None \<and> error (fetchRandomUser r s) \<noteq> None) =
      ((\<exists>x. attempt r = Inl x) \<and> user s \<noteq> None))"
proof (cases "attempt r")
  case (Inl x)
  then show ?thesis by (simp add: fetchRandomUser_failed)
next
  case (Inr v)
  then show ?thesis by (simp add: fetchRandomUser_success)
qed

theorem fetch_user_or_error_witness:
  "attempt (Data jane_body) = Inr jane \<and>
   user (fetchRandomUser (Data jane_body) (initial Map.empty)) = Some (Obj 0 jane) \<and>
   error (fetchRandomUser (Data jane_body) (initial Map.empty)) = None \<and>
   attempt BadBody = Inl JsonRejected \<and>
   user (fetchRandomUser BadBody (initial Map.empty)) = None \<and>
   error (fetchRandomUser BadBody (initial Map.empty)) =
     Some (js ''Failed to fetch user. Please try again.'')"
  using fetch_user_or_error [of "Data jane_body" jane "initial Map.empty" JsonRejected]
    fetch_user_or_error [of BadBody jane "initial Map.empty" JsonRejected]
  by (simp add: attempt_jane_body attempt_failures initial_def)

text \<open>
  Claim C2: every failing fetch is caught. A rejected request and a body that is not JSON
  are failures; for every failure, \<^verbatim>\<open>loading\<close> is true once the call has started and false
  when it has completed, \<^verbatim>\<open>error\<close> is the non-empty message of line 65, \<^verbatim>\<open>user\<close> is what it
  was, and the failure is logged. The same holds when other events fell between the start
  and the end of the request (\<open>fetch_end\<close> on any state).
\<close>

theorem failed_fetch_sets_error:
  "attempt NoResponse = Inl FetchRejected \<and>
   attempt BadBody = Inl JsonRejected \<and>
   (attempt r = Inl e \<longrightarrow>
      loading (fetch_begin s) \<and>
      \<not> loading (fetchRandomUser r s) \<and>
      error (fetchRandomUser r s) = Some (js ''Failed to fetch user. Please try again.'') \<and>
      (js ''Failed to fetch user. Please try again.'') \<noteq> [] \<and>
      user (fetchRandomUser r s) = user s \<and>
      console (fetchRandomUser r s) = console s @ [e] \<and>
      \<not> loading (fetch_end r s') \<and>
      error (fetch_end r s') = Some (js ''Failed to fetch user. Please try again.'') \<and>
      user (fetch_end r s') = user s')"
  by (simp add: attempt_failures fetchRandomUser_failed fetch_end_failure fetch_begin_def)

theorem failed_fetch_sets_error_witness:
  "attempt NoResponse = Inl FetchRejected \<and>
   loading (fetch_begin (fetchRandomUser (Data jane_body) (initial Map.empty))) \<and>
   \<not> loading (fetchRandomUser NoResponse (fetchRandomUser (Data jane_body) (initial Map.empty))) \<and>
   error (fetchRandomUser NoResponse (fetchRandomUser (Data jane_body) (initial Map.empty))) =
     Some (js ''Failed to fetch user. Please try again.'') \<and>
   user (fetchRandomUser NoResponse (fetchRandomUser (Data jane_body) (initial Map.empty))) =
     Some (Obj 0 jane)"
  using failed_fetch_sets_error [of NoResponse FetchRejected
      "fetchRandomUser (Data jane_body) (initial Map.empty)" "initial Map.empty"]
  by (simp add: fetchRandomUser_success [OF attempt_jane_body] initial_def)

text \<open>
  Claim C10: a failed fetch leaves the history and the favorites as they were (and the
  stored history with them), whether or not other events fell between its start and its end.
\<close>

theorem failed_fetch_keeps_collections:
  "attempt r = Inl e \<longrightarrow>
     userHistory (fetchRandomUser r s) = userHistory s \<and>
     favorites (fetchRandomUser r s) = favorites s \<and>
     localStorage (fetchRandomUser r s) = localStorage s \<and>
     userHistory (fetch_end r s) = userHistory s \<and>
     favorites (fetch_end r s) = favorites s \<and>
     localStorage (fetch_end r s) = localStorage s"
  by (simp add: fetchRandomUser_failed fetch_end_failure)

theorem failed_fetch_keeps_collections_witness:
  "attempt (Data \<lparr>results = Some []\<rparr>) = Inl TypeError \<and>
   userHistory (fetchRandomUser (Data \<lparr>results = Some []\<rparr>)
      (toggleFavorite (Obj 0 jane) (fetchRandomUser (Data jane_body) (initial Map.empty)))) =
     [Obj 0 jane] \<and>
   favorites (fetchRandomUser (Data \<lparr>results = Some []\<rparr>)
      (toggleFavorite (Obj 0 jane) (fetchRandomUser (Data jane_body) (initial Map.empty)))) =
     [Obj 0 jane]"
  using failed_fetch_keeps_collections [of "Data \<lparr>results = Some []\<rparr>" TypeError
      "toggleFavorite (Obj 0 jane) (fetchRandomUser (Data jane_body) (initial Map.empty))"]
  by (simp add: attempt_failures fetchRandomUser_success [OF attempt_jane_body] initial_def
      toggleFavorite_def toggle_def includes_obj_def)

section \<open>History\<close>

lemma fetched_Nil [simp]: "fetched [] = []"
  by (simp add: fetched_def)

lemma fetched_Cons [simp]: "fetched (e # es) = fetched_by e @ fetched es"
  by (simp add: fetched_def)

lemma userHistory_step:
  assumes "e \<noteq> ClearHistory"
  shows "userHistory (step s e) = userHistory s @ map (Obj (next_ref s)) (fetched_by e)"
proof (cases e)
  case (FetchEnd r)
  then show ?thesis
    by (cases "attempt r") (simp_all add: fetched_by_def fetch_end_failure fetch_end_success)
next
  case ClearHistory
  with assms show ?thesis by simp
qed (simp_all add: fetched_by_def fetch_begin_def toggleFavorite_def handleSearch_def
    copyUserInfo_def split: option.splits)

lemma userHistory_run:
  assumes "ClearHistory \<notin> set es"
  shows "\<exists>objs. userHistory (run s es) = userHistory s @ objs \<and> map content objs = fetched es"
  using assms
proof (induction es arbitrary: s)
  case Nil
  then show ?case by simp
next
  case (Cons e es)
  then have e: "e \<noteq> ClearHistory" and es: "ClearHistory \<notin> set es" by auto
  from Cons.IH [OF es, of "step s e"] obtain objs where
    objs: "userHistory (run (step s e) es) = userHistory (step s e) @ objs"
      "map content objs = fetched es"
    by blast
  let ?new = "map (Obj (next_ref s)) (fetched_by e)"
  have "userHistory (run s (e # es)) = userHistory s @ (?new @ objs)"
    using objs(1) userHistory_step [OF e, of s] by simp
  moreover have "map content (?new @ objs) = fetched (e # es)"
    using objs(2) by (simp add: comp_def)
  ultimately show ?case by blast
qed

text \<open>
  Claim C4: a successful fetch appends exactly one person at the end of the history. After
  any sequence of events without a clear, the history is the history before, unchanged and
  in its order, followed by the people fetched, in the order they arrived; its length is the
  length before plus the number \<open>N\<close> of successful fetches.
\<close>

theorem history_appended:
  "(attempt r = Inr u \<longrightarrow>
      userHistory (fetchRandomUser r s) = userHistory s @ [Obj (next_ref s) u]) \<and>
   (ClearHistory \<notin> set es \<longrightarrow>
      prefix (userHistory s) (userHistory (run s es)) \<and>
      map content (userHistory (run s es)) = map content (userHistory s) @ fetched es \<and>
      length (userHistory (run s es)) = length (userHistory s) + length (fetched es))"
proof -
  have "attempt r = Inr u \<longrightarrow>
      userHistory (fetchRandomUser r s) = userHistory s @ [Obj (next_ref s) u]"
    by (simp add: fetchRandomUser_success)
  moreover have "prefix (userHistory s) (userHistory (run s es)) \<and>
      map content (userHistory (run s es)) = map content (userHistory s) @ fetched es \<and>
      length (userHistory (run s es)) = length (userHistory s) + length (fetched es)"
    if "ClearHistory \<notin> set es"
  proof -
    from userHistory_run [OF that, of s] obtain objs where
      objs: "userHistory (run s es) = userHistory s @ objs" "map content objs = fetched es"
      by blast
    from objs(2) have "length objs = length (fetched es)"
      by (metis length_map)
    with objs show ?thesis by simp
  qed
  ultimately show ?thesis by blast
qed

theorem history_appended_witness:
  "attempt (Data jane_body) = Inr jane \<and>
   userHistory (fetchRandomUser (Data jane_body) (initial Map.empty\<lparr>userHistory := [Obj 5 john]\<rparr>)) =
     [Obj 5 john, Obj 0 jane] \<and>
   ClearHistory \<notin> set [FetchBegin, FetchEnd (Data jane_body), ToggleFavorite (Obj 0 jane),
                        FetchBegin, FetchEnd NoResponse, FetchBegin, FetchEnd (Data jane_body)] \<and>
   fetched [FetchBegin, FetchEnd (Data jane_body), ToggleFavorite (Obj 0 jane),
            FetchBegin, FetchEnd NoResponse, FetchBegin, FetchEnd (Data jane_body)] = [jane, jane] \<and>
   length (userHistory (run (initial Map.empty\<lparr>userHistory := [Obj 5 john]\<rparr>)
      [FetchBegin, FetchEnd (Data jane_body), ToggleFavorite (Obj 0 jane),
       FetchBegin, FetchEnd NoResponse, FetchBegin, FetchEnd (Data jane_body)])) = 3"
  using history_appended [of "Data jane_body" jane "initial Map.empty\<lparr>userHistory := [Obj 5 john]\<rparr>"
      "[FetchBegin, FetchEnd (Data jane_body), ToggleFavorite (Obj 0 jane),
        FetchBegin, FetchEnd NoResponse, FetchBegin, FetchEnd (Data jane_body)]"]
  by (simp add: attempt_jane_body attempt_failures fetched_by_def initial_def)

text \<open>
  Claim C6: \<^verbatim>\<open>clearHistory()\<close> empties the history and, through the effect of lines 42-44,
  stores the text \<^verbatim>\<open>[]\<close> under the key, so that reading the key and parsing it gives the
  empty array; the favorites and every other field of the state are unchanged.
\<close>

theorem clearHistory_effect:
  "clearHistory s =
     s\<lparr>userHistory := [], localStorage := (localStorage s)((js ''userHistory'') \<mapsto> (js ''[]''))\<rparr> \<and>
   userHistory (clearHistory s) = [] \<and>
   localStorage (clearHistory s) (js ''userHistory'') = Some (JSON_stringify []) \<and>
   JSON_stringify [] = js ''[]'' \<and>
   (JSON_parse (js ''[]'') = Inr [] \<longrightarrow> load_history JSON_parse (clearHistory s) = Inr (Some [])) \<and>
   favorites (clearHistory s) = favorites s \<and>
   user (clearHistory s) = user s \<and>
   loading (clearHistory s) = loading s \<and>
   error (clearHistory s) = error s \<and>
   searchTerm (clearHistory s) = searchTerm s"
  by (simp add: clearHistory_def setUserHistory_def persist_of_def JSON_stringify_def
      load_history_def)

theorem clearHistory_effect_witness:
  "sample_parse (js ''[]'') = Inr [] \<and>
   load_history sample_parse
     (clearHistory (toggleFavorite (Obj 0 jane)
        (fetchRandomUser (Data jane_body) (initial Map.empty)))) = Inr (Some []) \<and>
   favorites (clearHistory (toggleFavorite (Obj 0 jane)
        (fetchRandomUser (Data jane_body) (initial Map.empty)))) = [Obj 0 jane]"
  using clearHistory_effect [of "toggleFavorite (Obj 0 jane)
        (fetchRandomUser (Data jane_body) (initial Map.empty))" sample_parse]
  by (simp add: sample_parse_def fetchRandomUser_success [OF attempt_jane_body] initial_def
      toggleFavorite_def toggle_def includes_obj_def clearHistory_def setUserHistory_def
      persist_of_def load_history_def JSON_stringify_def)

section \<open>Mounting\<close>

lemma mount_skipped:
  assumes "storage (js ''userHistory'') = None \<or> storage (js ''userHistory'') = Some []"
  shows "mount JSON_parse storage =
           Inr (initial storage\<lparr>loading := True,
                  localStorage := storage((js ''userHistory'') \<mapsto> (js ''[]''))\<rparr>)"
  using assms
  by (auto simp: mount_def load_history_def initial_def persist_of_def fetch_begin_def
      JSON_stringify_def)

lemma mount_thrown:
  assumes "storage (js ''userHistory'') = Some savedHistory" "savedHistory \<noteq> []"
    "JSON_parse savedHistory = Inl e"
  shows "mount JSON_parse storage = Inl e"
  using assms by (simp add: mount_def load_history_def initial_def)

lemma content_allocate [simp]: "map content (allocate us s) = us"
proof -
  have "map content (allocate us s) = map snd (enumerate 0 us)"
    by (simp add: allocate_def comp_def case_prod_unfold)
  then show ?thesis by simp
qed

lemma mount_parsed:
  assumes "storage (js ''userHistory'') = Some savedHistory" "savedHistory \<noteq> []"
    "JSON_parse savedHistory = Inr parsed"
  shows "mount JSON_parse storage =
           Inr (initial storage
                  \<lparr>loading := True,
                   next_ref := length parsed,
                   userHistory := allocate parsed (initial storage),
                   localStorage := storage((js ''userHistory'') \<mapsto> JSON_stringify parsed)\<rparr>)"
  using assms
  by (simp add: mount_def load_history_def Let_def setUserHistory_def persist_of_def
      fetch_begin_def initial_def allocate_def comp_def case_prod_unfold)

text \<open>
  Claim C7, as stated: at initialization the key is read; a value that is present is
  deserialized and becomes the initial history; a malformed stored value is an uncaught
  error, and there is no guard and no fallback to the empty history. It fails for the empty
  string: stored under the key, it is present and it is no JSON text (\<^verbatim>\<open>JSON.parse\<close> throws
  on it), but the guard \<^verbatim>\<open>if (savedHistory)\<close> of line 36 is false for it, nothing is parsed,
  nothing is thrown, and the component mounts with the empty history.
\<close>

theorem mount_malformed_counterexample:
  "[(js ''userHistory'') \<mapsto> []] (js ''userHistory'') = Some [] \<and>
   sample_parse [] = Inl SyntaxError \<and>
   mount sample_parse [(js ''userHistory'') \<mapsto> []] =
     Inr (initial [(js ''userHistory'') \<mapsto> []]
            \<lparr>loading := True, localStorage := [(js ''userHistory'') \<mapsto> (js ''[]'')]\<rparr>) \<and>
   userHistory (initial [(js ''userHistory'') \<mapsto> []]
            \<lparr>loading := True, localStorage := [(js ''userHistory'') \<mapsto> (js ''[]'')]\<rparr>) = []"
  by (simp add: mount_skipped sample_parse_def JSON_stringify_def initial_def)

text \<open>
  Claim C7, amended: at initialization the key is read. A stored value that is not the
  empty string is deserialized: if it parses, the parsed records are the initial history
  (one stored record gives a history of length 1) before any fetch completes, and if it is
  malformed the exception of \<^verbatim>\<open>JSON.parse\<close> is thrown and not caught, with no fallback.
  A missing key or the empty string is skipped, and the history starts empty.
\<close>

theorem mount_reads_history:
  "(storage (js ''userHistory'') = Some savedHistory \<and> savedHistory \<noteq> [] \<and>
    JSON_parse savedHistory = Inr parsed \<longrightarrow>
      (\<exists>s. mount JSON_parse storage = Inr s \<and>
           map content (userHistory s) = parsed \<and>
           length (userHistory s) = length parsed \<and>
           loading s \<and> user s = None)) \<and>
   (storage (js ''userHistory'') = Some savedHistory \<and> savedHistory \<noteq> [] \<and>
    JSON_parse savedHistory = Inl e \<longrightarrow>
      mount JSON_parse storage = Inl e) \<and>
   (storage (js ''userHistory'') = None \<or> storage (js ''userHistory'') = Some [] \<longrightarrow>
      (\<exists>s. mount JSON_parse storage = Inr s \<and> userHistory s = []))"
proof -
  have "\<exists>s. mount JSON_parse storage = Inr s \<and> map content (userHistory s) = parsed \<and>
           length (userHistory s) = length parsed \<and> loading s \<and> user s = None"
    if "storage (js ''userHistory'') = Some savedHistory" "savedHistory \<noteq> []"
      "JSON_parse savedHistory = Inr parsed"
  proof -
    have "length (allocate parsed (initial storage)) = length parsed"
      by (simp add: allocate_def)
    moreover note mount_parsed [of storage savedHistory JSON_parse parsed]
    ultimately show ?thesis
      using that by (simp add: initial_def)
  qed
  moreover have "\<exists>s. mount JSON_parse storage = Inr s \<and> userHistory s = []"
    if "storage (js ''userHistory'') = None \<or> storage (js ''userHistory'') = Some []"
    using that mount_skipped [of storage JSON_parse] by (auto simp: initial_def)
  ultimately show ?thesis
    by (auto simp: mount_thrown)
qed

theorem mount_reads_history_witness:
  "[(js ''userHistory'') \<mapsto> JSON_stringify [jane]] (js ''userHistory'') = Some (JSON_stringify [jane]) \<and>
   JSON_stringify [jane] \<noteq> [] \<and>
   sample_parse (JSON_stringify [jane]) = Inr [jane] \<and>
   mount sample_parse [(js ''userHistory'') \<mapsto> JSON_stringify [jane]] =
     Inr (initial [(js ''userHistory'') \<mapsto> JSON_stringify [jane]]
            \<lparr>loading := True, next_ref := 1, userHistory := [Obj 0 jane]\<rparr>) \<and>
   [(js ''userHistory'') \<mapsto> (js ''not json'')] (js ''userHistory'') = Some (js ''not json'') \<and>
   sample_parse (js ''not json'') = Inl SyntaxError \<and>
   mount sample_parse [(js ''userHistory'') \<mapsto> (js ''not json'')] = Inl SyntaxError \<and>
   mount sample_parse Map.empty =
     Inr (initial Map.empty\<lparr>loading := True, localStorage := [(js ''userHistory'') \<mapsto> (js ''[]'')]\<rparr>)"
  using mount_reads_history [of "[(js ''userHistory'') \<mapsto> JSON_stringify [jane]]"
      "JSON_stringify [jane]" sample_parse "[jane]" SyntaxError]
    mount_reads_history [of "[(js ''userHistory'') \<mapsto> (js ''not json'')]" "(js ''not json'')" sample_parse
      "[jane]" SyntaxError]
    mount_reads_history [of Map.empty "(js ''not json'')" sample_parse "[jane]" SyntaxError]
  by (simp add: sample_parse_def JSON_stringify_def stringify_User_def mount_def
      load_history_def initial_def Let_def setUserHistory_def persist_of_def fetch_begin_def
      allocate_def)

section \<open>Clipboard\<close>

text \<open>
  Claim C8: with a current person, \<^verbatim>\<open>copyUserInfo()\<close> hands the clipboard the three lines
  \<^verbatim>\<open>Name: ...\<close>, \<^verbatim>\<open>Email: ...\<close>, \<^verbatim>\<open>Address: ...\<close> joined by newlines, and shows the alert;
  nothing else changes. With no current person it does nothing at all.
\<close>

theorem copyUserInfo_effect:
  "(user s = Some u \<longrightarrow>
      copyUserInfo s =
        s\<lparr>clipboard := clipboard s @
             [js ''Name: '' @ name (content u) @ [10] @
              js ''Email: '' @ email (content u) @ [10] @
              js ''Address: '' @ address (content u)],
          alerts := alerts s @ [(js ''User information copied to clipboard!'')]\<rparr>) \<and>
   (user s = None \<longrightarrow> copyUserInfo s = s)"
  by (simp add: copyUserInfo_def userInfo_def)

theorem copyUserInfo_effect_witness:
  "user (fetchRandomUser (Data jane_body) (initial Map.empty)) = Some (Obj 0 jane) \<and>
   clipboard (copyUserInfo (fetchRandomUser (Data jane_body) (initial Map.empty))) =
     [js ''Name: Jane Doe'' @ [10] @ js ''Email: jane@x.com'' @ [10] @
      (js ''Address: 12 Main St, Leeds, UK'')] \<and>
   user (initial Map.empty) = None \<and>
   copyUserInfo (initial Map.empty) = initial Map.empty"
  using copyUserInfo_effect [of "fetchRandomUser (Data jane_body) (initial Map.empty)" "Obj 0 jane"]
    copyUserInfo_effect [of "initial Map.empty" "Obj 0 jane"]
  by (simp add: fetchRandomUser_success [OF attempt_jane_body] initial_def jane_def)

section \<open>Searching\<close>












end
